theory Spec2Isabelle
  imports Main "HOL-Library.Signed_Division" "HOL-Library.Word"
begin

section \<open>Data model of output.c\<close>

text \<open>
  The file drives one display device of a Wayland kiosk. Everything it does beyond
  its own bookkeeping is a call into wlroots or libwayland; the model records each
  such call, in program order, as an \<open>event\<close>, and takes every value that a library
  call returns as an input. Pointers are natural numbers (\<open>addr\<close>); \<open>NULL\<close> is \<open>None\<close>.
  A \<open>float\<close> and a \<open>double\<close> are carried as their bit patterns and a C \<open>int\<close> as an
  integer. The model does no floating-point arithmetic: where the source computes with
  such values, the event of the call that consumes the result carries the operands.
  The one \<open>int\<close> operation of the model is the division by 2 of the cursor warp.
\<close>

type_synonym addr = nat

text \<open>\<open>struct timespec\<close>: seconds and nanoseconds.\<close>
type_synonym timespec = "int \<times> int"

text \<open>\<open>enum wl_output_transform\<close>, by its numeric value.\<close>
type_synonym wl_output_transform = nat

text \<open>\<open>float\<close> and \<open>double\<close> values (IEEE 754 binary32 and binary64), by their bits.\<close>
type_synonym c_float = "32 word"

type_synonym c_double = "64 word"

text \<open>
  The operands of the \<open>struct wlr_box\<close> initialiser of \<open>render_surface\<close> (lines 53 to
  62): the pair that \<open>wlr_output_layout_output_coords\<close> leaves in \<open>(ox, oy)\<close>, the
  position \<open>(view->x, view->y)\<close>, the offset \<open>(sx, sy)\<close>, the committed size
  \<open>(surface->current.width, surface->current.height)\<close> and \<open>output->scale\<close>. From them
  the source computes the four \<open>int\<close> fields of the box in \<open>double\<close> and \<open>float\<close>
  arithmetic; the model leaves that arithmetic to the machine and keeps the operands.
\<close>
record wlr_box_operands =
  box_layout :: "c_double \<times> c_double"
  box_view :: "int \<times> int"
  box_offset :: "int \<times> int"
  box_size :: "int \<times> int"
  box_scale :: c_float

text \<open>
  What \<open>render_surface\<close> reads of a \<open>struct wlr_surface\<close>: its address, the results of
  \<open>wlr_surface_has_buffer\<close> and \<open>wlr_surface_get_texture\<close>, the committed state
  \<open>surface->current\<close> and \<open>surface->renderer\<close>.
\<close>
record wlr_surface =
  surface_ptr :: addr
  has_buffer :: bool
  texture :: "addr option"
  current_width :: int
  current_height :: int
  current_transform :: wl_output_transform
  surface_renderer :: addr

text \<open>\<open>struct wlr_output_mode\<close>.\<close>
record wlr_output_mode =
  mode_width :: int
  mode_height :: int
  mode_refresh :: int

text \<open>
  What the handlers read of a \<open>struct wlr_output\<close>: its address, \<open>name\<close>, the list
  \<open>modes\<close> from its head to its tail, \<open>scale\<close>, \<open>width\<close> and \<open>height\<close>.
\<close>
record wlr_output =
  output_ptr :: addr
  output_name :: string
  output_modes :: "wlr_output_mode list"
  output_scale :: c_float
  output_width :: int
  output_height :: int

text \<open>
  \<open>enum cg_view_type\<close> has the one enumerator \<open>CAGE_XDG_SHELL_VIEW\<close>; any other value
  that the field \<open>view->type\<close> may hold is \<open>OTHER_VIEW_TYPE n\<close> and takes the
  \<open>default:\<close> branch of the switch.
\<close>
datatype cg_view_type = CAGE_XDG_SHELL_VIEW | OTHER_VIEW_TYPE int

text \<open>
  \<open>wlr_xdg_surface_for_each_surface\<close> is a library routine: a \<open>struct wlr_xdg_surface\<close>
  is represented by the sequence of iterator calls \<open>(surface, sx, sy)\<close> which that routine
  makes for it, in order.
\<close>
type_synonym wlr_xdg_surface = "(wlr_surface \<times> int \<times> int) list"

text \<open>What the renderer reads of a \<open>struct cg_view\<close>.\<close>
record cg_view =
  view_type :: cg_view_type
  xdg_surface :: wlr_xdg_surface
  view_x :: int
  view_y :: int

text \<open>
  \<open>struct wlr_output_layout\<close>, seen through \<open>wlr_output_layout_output_coords\<close>: for the
  output at an address, the pair which that call leaves in \<open>(ox, oy)\<close> when they enter
  as \<open>(0, 0)\<close>.
\<close>
type_synonym wlr_output_layout = "addr \<Rightarrow> c_double \<times> c_double"

text \<open>\<open>struct render_data\<close>.\<close>
record render_data =
  rd_output_layout :: wlr_output_layout
  rd_output :: wlr_output
  rd_view :: cg_view
  rd_when :: timespec

datatype wlr_log_importance = WLR_ERROR | WLR_DEBUG

datatype log_arg = Arg_int int | Arg_string string | Arg_float c_float

text \<open>
  The library calls with an effect, as the trace records them. \<open>Render_texture\<close> stands
  for \<open>wlr_matrix_project_box\<close> followed by \<open>wlr_render_texture_with_matrix\<close>: it
  carries the renderer, the texture, the operands of the box and the surface transform
  whose inverse (\<open>wlr_output_transform_invert\<close>) orients the projection; rotation is 0
  and alpha is 1. \<open>Renderer_clear\<close> carries the four floats of the colour.
\<close>
datatype event =
    Log wlr_log_importance string "log_arg list"
  | Make_current addr
  | Clock_gettime
  | Renderer_begin int int
  | Renderer_clear c_float c_float c_float c_float
  | Render_texture addr addr wlr_box_operands wl_output_transform
  | Frame_done addr timespec
  | Renderer_end
  | Swap_buffers addr
  | Set_mode addr wlr_output_mode
  | Layout_add_auto addr
  | Xcursor_load c_float
  | Xcursor_set_default_image
  | Cursor_warp int int
  | Display_terminate

section \<open>Rendering one surface\<close>

text \<open>
  What lines 53 to 62 of \<open>render_surface\<close> read: the layout pair of the output of
  \<open>rdata\<close>, the position of the view of \<open>rdata\<close>, the offset passed to the iterator, the
  committed size of the surface, and the scale of the output.
\<close>
definition box_operands ::
  "wlr_surface \<Rightarrow> int \<Rightarrow> int \<Rightarrow> render_data \<Rightarrow> wlr_box_operands" where
  "box_operands surface sx sy rdata =
    (let view = rd_view rdata;
         output = rd_output rdata
     in \<lparr> box_layout = rd_output_layout rdata (output_ptr output),
          box_view = (view_x view, view_y view),
          box_offset = (sx, sy),
          box_size = (current_width surface, current_height surface),
          box_scale = output_scale output \<rparr>)"

text \<open>
  \<open>render_surface\<close>: the events of one iterator call. The two early returns come
  first, as in the source; the frame-done signal is the last statement of the path
  that draws.
\<close>
definition render_surface :: "wlr_surface \<Rightarrow> int \<Rightarrow> int \<Rightarrow> render_data \<Rightarrow> event list" where
  "render_surface surface sx sy rdata =
    (if \<not> has_buffer surface then []
     else case texture surface of
       None \<Rightarrow> [Log WLR_DEBUG ''Cannot obtain surface texture'' []]
     | Some tex \<Rightarrow>
         [Render_texture (surface_renderer surface) tex (box_operands surface sx sy rdata)
            (current_transform surface),
          Frame_done (surface_ptr surface) (rd_when rdata)])"

section \<open>Walking the surfaces of a view\<close>

text \<open>
  \<open>view_for_each_surface\<close>: the switch on \<open>view->type\<close>. The iterator is a parameter,
  as the function pointer is in the source.
\<close>
definition view_for_each_surface ::
  "cg_view \<Rightarrow> render_data \<Rightarrow> (wlr_surface \<Rightarrow> int \<Rightarrow> int \<Rightarrow> render_data \<Rightarrow> event list) \<Rightarrow> event list" where
  "view_for_each_surface view rdata iterator =
    (case view_type view of
       CAGE_XDG_SHELL_VIEW \<Rightarrow>
         concat (map (\<lambda>(surface, sx, sy). iterator surface sx sy rdata) (xdg_surface view))
     | OTHER_VIEW_TYPE n \<Rightarrow> [Log WLR_ERROR ''Unrecognized view type: %d'' [Arg_int n]])"

section \<open>The frame handler\<close>

text \<open>
  The values which the library hands to one run of \<open>handle_output_frame\<close>: the result of
  \<open>wlr_output_make_current\<close>, the time read by \<open>clock_gettime\<close>, the effective resolution,
  the output layout, and the list \<open>server->views\<close> from its head to its tail.
\<close>
record frame_env =
  make_current_ok :: bool
  clock_now :: timespec
  effective_resolution :: "int \<times> int"
  env_output_layout :: wlr_output_layout
  env_views :: "cg_view list"

text \<open>
  The body of the loop of \<open>handle_output_frame\<close> (lines 114 and 115) for one view:
  \<open>rdata.view\<close> is set, and the view's surfaces are walked with \<open>render_surface\<close>.
\<close>
definition render_view :: "wlr_output \<Rightarrow> frame_env \<Rightarrow> cg_view \<Rightarrow> event list" where
  "render_view out env view =
    view_for_each_surface view
      \<lparr> rd_output_layout = env_output_layout env, rd_output = out,
        rd_view = view, rd_when = clock_now env \<rparr>
      render_surface"

text \<open>
  The loop itself: \<open>wl_list_for_each_reverse\<close> runs from the tail of \<open>server->views\<close>
  to its head.
\<close>
definition render_views :: "wlr_output \<Rightarrow> frame_env \<Rightarrow> event list" where
  "render_views out env = concat (map (render_view out env) (rev (env_views env)))"

text \<open>
  The library calls of one run of \<open>handle_output_frame\<close> for the device \<open>out\<close>: the
  early return when the rendering context is refused, else the whole pass. The colour
  \<open>{0.3, 0.3, 0.3, 1.0}\<close> is written as the floats nearest to its constants.
\<close>
definition frame_events :: "wlr_output \<Rightarrow> frame_env \<Rightarrow> event list" where
  "frame_events out env =
    (if \<not> make_current_ok env then
       [Make_current (output_ptr out), Log WLR_DEBUG ''Cannot make damage output current'' []]
     else
       [Make_current (output_ptr out), Clock_gettime,
        Renderer_begin (fst (effective_resolution env)) (snd (effective_resolution env)),
        Renderer_clear 0x3E99999A 0x3E99999A 0x3E99999A 0x3F800000]
       @ render_views out env
       @ [Renderer_end, Swap_buffers (output_ptr out)])"

section \<open>The server, its output record and its signal subscriptions\<close>

text \<open>
  \<open>struct cg_output\<close>: the device it drives. Its two embedded listeners \<open>frame\<close> and
  \<open>destroy\<close> are named by the address of the record (\<open>Cg_output_frame a\<close>,
  \<open>Cg_output_destroy a\<close>); its back-reference \<open>server\<close> is the one server of the model.
\<close>
record cg_output =
  co_wlr_output :: wlr_output

text \<open>
  The signals that the file subscribes to, and the listeners that it links into them:
  \<open>backend->events.new_output\<close> with \<open>server->new_output\<close>, and for the device at an
  address \<open>wlr_output->events.frame\<close> and \<open>wlr_output->events.destroy\<close> with the two
  listeners of a \<open>cg_output\<close>.
\<close>
datatype wl_signal = Backend_new_output | Output_frame addr | Output_destroy addr

datatype wl_listener = Server_new_output | Cg_output_frame addr | Cg_output_destroy addr

text \<open>
  The part of \<open>struct cg_server\<close> and of the process that the handlers change:
  the pointer \<open>server->output\<close>, the \<open>cg_output\<close> records allocated by \<open>calloc\<close> and not
  yet freed, every listener that is linked into a signal (in the order of linking),
  and the trace of library calls.
\<close>
record cg_server =
  server_output :: "addr option"
  cg_outputs :: "(addr \<times> cg_output) list"
  listeners :: "(wl_signal \<times> wl_listener) list"
  trace :: "event list"

text \<open>\<open>calloc\<close> returns an address that no live record has (it is taken to succeed).\<close>
definition calloc_addr :: "(addr \<times> cg_output) list \<Rightarrow> addr" where
  "calloc_addr h = Suc (fold max (map fst h) 0)"

definition free :: "addr \<Rightarrow> (addr \<times> cg_output) list \<Rightarrow> (addr \<times> cg_output) list" where
  "free a h = filter (\<lambda>(b, r). b \<noteq> a) h"

text \<open>\<open>wl_signal_add\<close> links a listener at the end of the signal's list.\<close>
definition wl_signal_add ::
  "wl_signal \<Rightarrow> wl_listener \<Rightarrow> (wl_signal \<times> wl_listener) list \<Rightarrow> (wl_signal \<times> wl_listener) list" where
  "wl_signal_add sg l ls = ls @ [(sg, l)]"

text \<open>
  \<open>wl_list_remove\<close> unlinks a listener from the list that holds it. On a link that is
  in no list it dereferences a null pointer: the model has no successor state (\<open>None\<close>).
\<close>
definition wl_list_remove ::
  "wl_listener \<Rightarrow> (wl_signal \<times> wl_listener) list \<Rightarrow> (wl_signal \<times> wl_listener) list option" where
  "wl_list_remove l ls =
    (if l \<in> snd ` set ls then Some (filter (\<lambda>(sg, l'). l' \<noteq> l) ls) else None)"

section \<open>The handlers\<close>

text \<open>
  \<open>handle_output_frame\<close>: the listener is the \<open>frame\<close> member of the record at \<open>a\<close>.
  A listener whose record has been freed is a dangling pointer (\<open>None\<close>).
\<close>
definition handle_output_frame :: "addr \<Rightarrow> frame_env \<Rightarrow> cg_server \<Rightarrow> cg_server option" where
  "handle_output_frame a env s =
    (case map_of (cg_outputs s) a of
       None \<Rightarrow> None
     | Some output \<Rightarrow> Some (s\<lparr> trace := trace s @ frame_events (co_wlr_output output) env \<rparr>))"

text \<open>\<open>handle_output_destroy\<close>: the listener is the \<open>destroy\<close> member of the record at \<open>a\<close>.\<close>
definition handle_output_destroy :: "addr \<Rightarrow> cg_server \<Rightarrow> cg_server option" where
  "handle_output_destroy a s =
    (case map_of (cg_outputs s) a of
       None \<Rightarrow> None
     | Some output \<Rightarrow>
        (case wl_list_remove (Cg_output_destroy a) (listeners s) of
           None \<Rightarrow> None
         | Some ls1 \<Rightarrow>
            (case wl_list_remove (Cg_output_frame a) ls1 of
               None \<Rightarrow> None
             | Some ls2 \<Rightarrow>
                 Some (s\<lparr> listeners := ls2,
                          cg_outputs := free a (cg_outputs s),
                          server_output := None,
                          trace := trace s @ [Display_terminate] \<rparr>))))"

text \<open>
  \<open>handle_new_output\<close>: \<open>wlr_output\<close> is the device passed as \<open>data\<close>, \<open>xcursor_rc\<close> the
  value returned by \<open>wlr_xcursor_manager_load\<close>. \<open>wlr_output->modes.prev\<close> is the last
  element of the list of modes; the division by 2 is C's, on \<open>int\<close>, and \<open>Cursor_warp\<close>
  carries the two quotients before their conversion to \<open>double\<close>.
\<close>
definition handle_new_output :: "wlr_output \<Rightarrow> int \<Rightarrow> cg_server \<Rightarrow> cg_server option" where
  "handle_new_output wlr_output xcursor_rc s =
    (let p = output_ptr wlr_output;
         a = calloc_addr (cg_outputs s);
         ls = wl_signal_add (Output_destroy p) (Cg_output_destroy a)
                (wl_signal_add (Output_frame p) (Cg_output_frame a) (listeners s))
     in case wl_list_remove Server_new_output ls of
          None \<Rightarrow> None
        | Some ls' \<Rightarrow>
            Some (s\<lparr> server_output := Some a,
                     cg_outputs := cg_outputs s @ [(a, \<lparr> co_wlr_output = wlr_output \<rparr>)],
                     listeners := ls',
                     trace := trace s
                       @ (if output_modes wlr_output \<noteq> []
                          then [Set_mode p (last (output_modes wlr_output))] else [])
                       @ [Layout_add_auto p, Xcursor_load (output_scale wlr_output)]
                       @ (if xcursor_rc \<noteq> 0
                          then [Log WLR_ERROR
                                  (''Cannot load XCursor theme for output '' @ [CHR 0x27] @ ''%s''
                                     @ [CHR 0x27] @ '' with scale %f'')
                                  [Arg_string (output_name wlr_output),
                                   Arg_float (output_scale wlr_output)]]
                          else [])
                       @ [Xcursor_set_default_image,
                          Cursor_warp (output_width wlr_output sdiv 2)
                            (output_height wlr_output sdiv 2)] \<rparr>))"

section \<open>Delivery of notifications\<close>

text \<open>
  What the backend delivers: a device attached (with the value that the cursor theme
  load will return), a refresh tick of the device at an address (with the values that
  the library will hand to the frame handler), the removal of the device at an address.
\<close>
datatype notification =
    Device_attached wlr_output int
  | Refresh_tick addr frame_env
  | Device_removed addr

fun signal_of :: "notification \<Rightarrow> wl_signal" where
  "signal_of (Device_attached wo rc) = Backend_new_output"
| "signal_of (Refresh_tick p env) = Output_frame p"
| "signal_of (Device_removed p) = Output_destroy p"

text \<open>
  The \<open>notify\<close> member of each listener, as the file sets it. A handler run on data of
  another signal than its own has no defined behaviour.
\<close>
fun notify :: "wl_listener \<Rightarrow> notification \<Rightarrow> cg_server \<Rightarrow> cg_server option" where
  "notify Server_new_output (Device_attached wo rc) s = handle_new_output wo rc s"
| "notify (Cg_output_frame a) (Refresh_tick p env) s = handle_output_frame a env s"
| "notify (Cg_output_destroy a) (Device_removed p) s = handle_output_destroy a s"
| "notify l n s = None"

text \<open>
  Emission of a signal: the listeners linked into it when the emission starts are
  called in order, each one only if it is still linked when its turn comes.
\<close>
fun emit_to :: "wl_listener list \<Rightarrow> notification \<Rightarrow> cg_server \<Rightarrow> cg_server option" where
  "emit_to [] n s = Some s"
| "emit_to (l # ls) n s =
    (if (signal_of n, l) \<in> set (listeners s)
     then (case notify l n s of None \<Rightarrow> None | Some s' \<Rightarrow> emit_to ls n s')
     else emit_to ls n s)"

definition wl_signal_emit :: "notification \<Rightarrow> cg_server \<Rightarrow> cg_server option" where
  "wl_signal_emit n s =
    emit_to (map snd (filter (\<lambda>(sg, l). sg = signal_of n) (listeners s))) n s"

text \<open>A run of the event loop over a sequence of notifications.\<close>
fun run :: "notification list \<Rightarrow> cg_server \<Rightarrow> cg_server option" where
  "run [] s = Some s"
| "run (n # ns) s = (case wl_signal_emit n s of None \<Rightarrow> None | Some s' \<Rightarrow> run ns s')"

text \<open>
  The server as the event loop finds it when no device has been attached yet: no Output,
  the attach listener \<open>server->new_output\<close> linked into the backend's signal, and an
  empty trace.
\<close>
definition server_start :: cg_server where
  "server_start =
    \<lparr> server_output = None, cg_outputs = [],
      listeners = [(Backend_new_output, Server_new_output)], trace = [] \<rparr>"

text \<open>
  The server drives the record \<open>co\<close> at address \<open>a\<close>: it is the only live record,
  \<open>server->output\<close> points to it, and its two listeners are the only linked ones, each
  in the signal of its device.
\<close>
definition active_with :: "addr \<Rightarrow> cg_output \<Rightarrow> cg_server \<Rightarrow> bool" where
  "active_with a co s =
    (cg_outputs s = [(a, co)] \<and> server_output s = Some a \<and>
     listeners s =
       [(Output_frame (output_ptr (co_wlr_output co)), Cg_output_frame a),
        (Output_destroy (output_ptr (co_wlr_output co)), Cg_output_destroy a)])"

text \<open>The three lifecycle states of section 4.3, as predicates on the server.\<close>
datatype phase = Unclaimed | Active | Destroyed

fun in_phase :: "phase \<Rightarrow> cg_server \<Rightarrow> bool" where
  "in_phase Unclaimed s =
    (server_output s = None \<and> cg_outputs s = [] \<and>
     listeners s = [(Backend_new_output, Server_new_output)])"
| "in_phase Active s =
    (case cg_outputs s of
       [] \<Rightarrow> False
     | (a, co) # rest \<Rightarrow> rest = [] \<and> active_with a co s)"
| "in_phase Destroyed s =
    (server_output s = None \<and> cg_outputs s = [] \<and> listeners s = [])"

definition lifecycle_inv :: "cg_server \<Rightarrow> bool" where
  "lifecycle_inv s = (in_phase Unclaimed s \<or> in_phase Active s \<or> in_phase Destroyed s)"

section \<open>Vocabulary of the properties\<close>

text \<open>Recognisers for the events that the properties count.\<close>
fun is_frame_done :: "event \<Rightarrow> bool" where
  "is_frame_done (Frame_done sp t) = True"
| "is_frame_done e = False"

fun is_render_texture :: "event \<Rightarrow> bool" where
  "is_render_texture (Render_texture r tex box tr) = True"
| "is_render_texture e = False"

fun is_set_mode :: "event \<Rightarrow> bool" where
  "is_set_mode (Set_mode p m) = True"
| "is_set_mode e = False"

text \<open>
  An event of the render pass proper: any event but a diagnostic and the request for
  the rendering context.
\<close>
fun is_pass_event :: "event \<Rightarrow> bool" where
  "is_pass_event (Log imp msg args) = False"
| "is_pass_event (Make_current p) = False"
| "is_pass_event e = True"

text \<open>
  The surfaces that the walk yields in one tick, in the order of the walk: for each view
  from the tail of the list to its head, the iterator calls of the view (none for a
  view of an unrecognised type).
\<close>
definition yielded_surfaces :: "cg_view list \<Rightarrow> (wlr_surface \<times> int \<times> int) list" where
  "yielded_surfaces views =
    concat (map (\<lambda>view. case view_type view of
                           CAGE_XDG_SHELL_VIEW \<Rightarrow> xdg_surface view
                         | OTHER_VIEW_TYPE n \<Rightarrow> [])
                (rev views))"

text \<open>A surface that \<open>render_surface\<close> does not skip: it has a buffer and a texture.\<close>
definition ready :: "wlr_surface \<Rightarrow> bool" where
  "ready surface = (has_buffer surface \<and> texture surface \<noteq> None)"

text \<open>
  Modelled from the spec: the view-management code that puts a view on the stack is not
  part of output.c. Sections 6 and 8 of the specification: the stack is ordered
  newest-first, a view that is inserted or raised goes to the head of \<open>server->views\<close>.
\<close>
definition view_insert :: "cg_view \<Rightarrow> cg_view list \<Rightarrow> cg_view list" where
  "view_insert view views = view # views"

text \<open>The stack after a sequence of insertions, the earliest first, into the empty stack.\<close>
definition views_after :: "cg_view list \<Rightarrow> cg_view list" where
  "views_after inserted = fold view_insert inserted []"

section \<open>Example data\<close>

definition mode_720p :: wlr_output_mode where
  "mode_720p = \<lparr> mode_width = 1280, mode_height = 720, mode_refresh = 60000 \<rparr>"

definition mode_1080p :: wlr_output_mode where
  "mode_1080p = \<lparr> mode_width = 1920, mode_height = 1080, mode_refresh = 60000 \<rparr>"

text \<open>An output of scale 1.0 and one of scale 1.5.\<close>
definition demo_output :: wlr_output where
  "demo_output =
    \<lparr> output_ptr = 1, output_name = ''HDMI-A-1'', output_modes = [mode_720p, mode_1080p],
      output_scale = 0x3F800000, output_width = 1920, output_height = 1080 \<rparr>"

definition demo_output_hidpi :: wlr_output where
  "demo_output_hidpi = demo_output \<lparr> output_scale := 0x3FC00000 \<rparr>"

definition demo_surface :: "addr \<Rightarrow> wlr_surface" where
  "demo_surface p =
    \<lparr> surface_ptr = p, has_buffer = True, texture = Some (100 + p), current_width = 3,
      current_height = 5, current_transform = 0, surface_renderer = 50 \<rparr>"

definition demo_view_A :: cg_view where
  "demo_view_A =
    \<lparr> view_type = CAGE_XDG_SHELL_VIEW,
      xdg_surface = [(demo_surface 10, 0, 0), (demo_surface 11, 4, 4)],
      view_x = 1, view_y = 2 \<rparr>"

definition demo_view_B :: cg_view where
  "demo_view_B =
    \<lparr> view_type = CAGE_XDG_SHELL_VIEW, xdg_surface = [(demo_surface 20, 0, 0)],
      view_x = 7, view_y = 8 \<rparr>"

text \<open>A view whose first surface has a buffer but no texture, and whose second has no buffer.\<close>
definition demo_view_unready :: cg_view where
  "demo_view_unready =
    \<lparr> view_type = CAGE_XDG_SHELL_VIEW,
      xdg_surface = [((demo_surface 30) \<lparr> texture := None \<rparr>, 0, 0),
                     ((demo_surface 31) \<lparr> has_buffer := False, texture := None \<rparr>, 0, 0)],
      view_x = 0, view_y = 0 \<rparr>"

definition demo_env :: "cg_view list \<Rightarrow> frame_env" where
  "demo_env views =
    \<lparr> make_current_ok = True, clock_now = (5, 0), effective_resolution = (1920, 1080),
      env_output_layout = (\<lambda>p. (0, 0)), env_views = views \<rparr>"

definition demo_rdata :: "wlr_output \<Rightarrow> cg_view \<Rightarrow> render_data" where
  "demo_rdata out view =
    \<lparr> rd_output_layout = (\<lambda>p. (0, 0)), rd_output = out, rd_view = view, rd_when = (5, 0) \<rparr>"

text \<open>The server with \<open>demo_output\<close> attached.\<close>
definition demo_active :: cg_server where
  "demo_active =
    \<lparr> server_output = Some 1, cg_outputs = [(1, \<lparr> co_wlr_output = demo_output \<rparr>)],
      listeners = [(Output_frame 1, Cg_output_frame 1), (Output_destroy 1, Cg_output_destroy 1)],
      trace = [] \<rparr>"

section \<open>Frame-done signals of a tick\<close>

lemma filter_frame_done_iter:
  "filter is_frame_done
     (concat (map (\<lambda>(surface, sx, sy). render_surface surface sx sy rdata) xs)) =
   map (\<lambda>v. Frame_done (surface_ptr (fst v)) (rd_when rdata)) (filter (\<lambda>v. ready (fst v)) xs)"
  by (induction xs) (auto simp: render_surface_def ready_def split: option.splits if_splits)

lemma filter_frame_done_view:
  "filter is_frame_done (render_view out env view) =
   map (\<lambda>v. Frame_done (surface_ptr (fst v)) (clock_now env))
     (filter (\<lambda>v. ready (fst v))
        (case view_type view of CAGE_XDG_SHELL_VIEW \<Rightarrow> xdg_surface view
         | OTHER_VIEW_TYPE n \<Rightarrow> []))"
  by (cases "view_type view")
     (simp_all add: render_view_def view_for_each_surface_def filter_frame_done_iter)

lemma filter_frame_done_views:
  "filter is_frame_done (render_views out env) =
   map (\<lambda>v. Frame_done (surface_ptr (fst v)) (clock_now env))
     (filter (\<lambda>v. ready (fst v)) (yielded_surfaces (env_views env)))"
proof -
  have "filter is_frame_done (concat (map (render_view out env) vs)) =
        map (\<lambda>v. Frame_done (surface_ptr (fst v)) (clock_now env))
          (filter (\<lambda>v. ready (fst v))
             (concat (map (\<lambda>view. case view_type view of
                                     CAGE_XDG_SHELL_VIEW \<Rightarrow> xdg_surface view
                                   | OTHER_VIEW_TYPE n \<Rightarrow> []) vs)))" for vs
    by (induction vs) (simp_all add: filter_frame_done_view)
  then show ?thesis by (simp add: render_views_def yielded_surfaces_def)
qed

text \<open>
  C1, as the code has it. The frame-done signals of a tick are, in the order of the
  walk, one signal with the tick's timestamp for each yielded surface that has both a
  buffer and a texture; a surface that \<open>render_surface\<close> skips gets none, and a tick
  whose rendering context is refused sends none at all.
\<close>
theorem frame_done_once_per_drawn_surface:
  "filter is_frame_done (frame_events out env) =
    (if make_current_ok env
     then map (\<lambda>v. Frame_done (surface_ptr (fst v)) (clock_now env))
            (filter (\<lambda>v. ready (fst v)) (yielded_surfaces (env_views env)))
     else [])"
  by (simp add: frame_events_def filter_frame_done_views)

theorem frame_done_once_per_drawn_surface_witness:
  "filter is_frame_done (frame_events demo_output (demo_env [demo_view_unready, demo_view_A])) =
     [Frame_done 10 (5, 0), Frame_done 11 (5, 0)]"
  using frame_done_once_per_drawn_surface
    [of demo_output "demo_env [demo_view_unready, demo_view_A]"]
  by (simp add: demo_env_def demo_view_unready_def demo_view_A_def demo_surface_def
      yielded_surfaces_def ready_def)

text \<open>
  C1, as it is stated, fails: in a tick over a view whose two surfaces are yielded by
  the walk, one without a texture and one without a buffer, no frame-done signal is
  sent.
\<close>
theorem frame_done_skipped_counterexample:
  "yielded_surfaces (env_views (demo_env [demo_view_unready])) =
     [((demo_surface 30) \<lparr> texture := None \<rparr>, 0, 0),
      ((demo_surface 31) \<lparr> has_buffer := False, texture := None \<rparr>, 0, 0)]
   \<and> filter is_frame_done (frame_events demo_output (demo_env [demo_view_unready])) = []"
  by (simp add: demo_env_def demo_view_unready_def demo_surface_def yielded_surfaces_def
      frame_events_def render_views_def render_view_def view_for_each_surface_def
      render_surface_def)

section \<open>The timestamp of a tick\<close>

lemma frame_done_in_surface:
  "Frame_done sp t \<in> set (render_surface surface sx sy rdata) \<Longrightarrow> t = rd_when rdata"
  by (cases "texture surface") (simp_all add: render_surface_def split: if_splits)

lemma frame_done_in_iter:
  assumes "Frame_done sp t \<in>
     set (concat (map (\<lambda>(surface, sx, sy). render_surface surface sx sy rdata) xs))"
  shows "t = rd_when rdata"
proof -
  from assms obtain surface sx sy
    where "Frame_done sp t \<in> set (render_surface surface sx sy rdata)"
    by auto
  then show ?thesis by (rule frame_done_in_surface)
qed

lemma frame_done_in_view:
  assumes "Frame_done sp t \<in> set (render_view out env view)"
  shows "t = clock_now env"
proof (cases "view_type view")
  case CAGE_XDG_SHELL_VIEW
  with assms have "Frame_done sp t \<in>
     set (concat (map (\<lambda>(surface, sx, sy). render_surface surface sx sy
            \<lparr> rd_output_layout = env_output_layout env, rd_output = out,
              rd_view = view, rd_when = clock_now env \<rparr>) (xdg_surface view)))"
    by (simp add: render_view_def view_for_each_surface_def)
  from frame_done_in_iter [OF this] show ?thesis by simp
next
  case (OTHER_VIEW_TYPE n)
  with assms show ?thesis by (simp add: render_view_def view_for_each_surface_def)
qed

lemma frame_done_in_tick:
  "Frame_done sp t \<in> set (frame_events out env) \<Longrightarrow> t = clock_now env"
  by (auto simp: frame_events_def render_views_def split: if_splits dest: frame_done_in_view)

lemma clock_not_in_surface: "Clock_gettime \<notin> set (render_surface surface sx sy rdata)"
  by (cases "texture surface") (simp_all add: render_surface_def)

lemma clock_not_in_iter:
  "Clock_gettime \<notin>
     set (concat (map (\<lambda>(surface, sx, sy). render_surface surface sx sy rdata) xs))"
  by (auto simp: clock_not_in_surface)

lemma clock_not_in_view: "Clock_gettime \<notin> set (render_view out env view)"
  using clock_not_in_iter
  by (cases "view_type view") (simp_all add: render_view_def view_for_each_surface_def)

lemma clock_not_in_views: "Clock_gettime \<notin> set (render_views out env)"
  by (simp add: render_views_def clock_not_in_view)

text \<open>
  C10. In one tick the clock is read once (not at all when the rendering context is
  refused), every frame-done signal of the tick carries the time that was read, and no
  frame-done signal is sent before the clock is read.
\<close>
theorem tick_single_timestamp:
  "count_list (frame_events out env) Clock_gettime = (if make_current_ok env then 1 else 0)
   \<and> (\<forall>sp t. Frame_done sp t \<in> set (frame_events out env) \<longrightarrow> t = clock_now env)
   \<and> (\<forall>e \<in> set (takeWhile (\<lambda>e. e \<noteq> Clock_gettime) (frame_events out env)).
        \<not> is_frame_done e)"
proof (intro conjI)
  show "count_list (frame_events out env) Clock_gettime = (if make_current_ok env then 1 else 0)"
    by (simp add: frame_events_def clock_not_in_views)
  show "\<forall>sp t. Frame_done sp t \<in> set (frame_events out env) \<longrightarrow> t = clock_now env"
    using frame_done_in_tick by blast
  show "\<forall>e \<in> set (takeWhile (\<lambda>e. e \<noteq> Clock_gettime) (frame_events out env)).
          \<not> is_frame_done e"
    by (simp add: frame_events_def)
qed

theorem tick_single_timestamp_witness:
  "map (\<lambda>e. case e of Frame_done sp t \<Rightarrow> t | _ \<Rightarrow> (0, 0))
     (filter is_frame_done (frame_events demo_output (demo_env [demo_view_B, demo_view_A])))
     = [(5, 0), (5, 0), (5, 0)]
   \<and> count_list (frame_events demo_output (demo_env [demo_view_B, demo_view_A])) Clock_gettime
     = 1"
  using tick_single_timestamp [of demo_output "demo_env [demo_view_B, demo_view_A]"]
  by (simp add: demo_env_def demo_view_B_def demo_view_A_def demo_surface_def
      frame_events_def render_views_def render_view_def view_for_each_surface_def
      render_surface_def)

section \<open>Paint order\<close>

lemma views_after_rev: "views_after inserted = rev inserted"
  by (simp add: views_after_def view_insert_def[abs_def] fold_Cons_rev)

lemma render_view_env_views:
  "render_view out (env \<lparr> env_views := vs \<rparr>) = render_view out env"
  by (rule ext) (simp add: render_view_def)

text \<open>
  C3. When the stack is the result of inserting views one after the other, the tick
  renders the views in the order of their insertion: for a view \<open>A\<close> inserted before a
  view \<open>B\<close>, all events of \<open>A\<close> (its draws among them) come before all events of \<open>B\<close>,
  so the view inserted last is painted last and lies on top.
\<close>
theorem paint_order_follows_insertion:
  "render_views out (env \<lparr> env_views := views_after (before @ A # between @ B # after) \<rparr>) =
     concat (map (render_view out env) before) @ render_view out env A
     @ concat (map (render_view out env) between) @ render_view out env B
     @ concat (map (render_view out env) after)"
  by (simp add: render_views_def views_after_rev render_view_env_views)

theorem paint_order_follows_insertion_witness:
  "map (\<lambda>e. case e of Render_texture r tex box tr \<Rightarrow> (tex, box_view box, box_offset box)
                | _ \<Rightarrow> (0, (0, 0), (0, 0)))
     (filter is_render_texture
        (render_views demo_output (demo_env (views_after [demo_view_A, demo_view_B])))) =
   [(110, (1, 2), (0, 0)), (111, (1, 2), (4, 4)), (120, (7, 8), (0, 0))]"
  using paint_order_follows_insertion
    [where out = demo_output and env = "demo_env []" and before = "[]" and A = demo_view_A
       and between = "[]" and B = demo_view_B and after = "[]"]
  by (simp add: demo_env_def demo_view_B_def demo_view_A_def demo_surface_def demo_output_def
      render_view_def view_for_each_surface_def render_surface_def box_operands_def)

section \<open>The surface walk\<close>

text \<open>
  C9. For a view of the supported type the walk calls the iterator on every surface
  that the library yields for the view, in order, and does nothing else; for a view of
  any other type it calls the iterator on nothing, logs one diagnostic of error
  severity and returns.
\<close>
theorem view_for_each_surface_variants:
  "(view_type view = CAGE_XDG_SHELL_VIEW \<longrightarrow>
      view_for_each_surface view rdata iterator =
        concat (map (\<lambda>(surface, sx, sy). iterator surface sx sy rdata) (xdg_surface view)))
   \<and> (\<forall>n. view_type view = OTHER_VIEW_TYPE n \<longrightarrow>
      view_for_each_surface view rdata iterator =
        [Log WLR_ERROR ''Unrecognized view type: %d'' [Arg_int n]])"
  by (simp add: view_for_each_surface_def)

theorem view_for_each_surface_variants_witness:
  "view_for_each_surface (demo_view_A \<lparr> view_type := OTHER_VIEW_TYPE 7 \<rparr>)
      (demo_rdata demo_output demo_view_A) render_surface =
     [Log WLR_ERROR ''Unrecognized view type: %d'' [Arg_int 7]]
   \<and> view_for_each_surface demo_view_A (demo_rdata demo_output demo_view_A) render_surface =
     render_surface (demo_surface 10) 0 0 (demo_rdata demo_output demo_view_A)
     @ render_surface (demo_surface 11) 4 4 (demo_rdata demo_output demo_view_A)"
  using view_for_each_surface_variants
      [of "demo_view_A \<lparr> view_type := OTHER_VIEW_TYPE 7 \<rparr>"
        "demo_rdata demo_output demo_view_A" render_surface]
    view_for_each_surface_variants
      [of demo_view_A "demo_rdata demo_output demo_view_A" render_surface]
  by (simp add: demo_view_A_def)

section \<open>A tick whose rendering context is refused\<close>

text \<open>
  C7. When \<open>wlr_output_make_current\<close> fails, the frame handler returns normally. The
  server is as before but for the trace, which gains the refused request and one
  diagnostic of debug severity: no clear, draw, frame-done or buffer swap. The handler
  of the next tick runs its pass from the values of that tick alone.
\<close>
theorem frame_aborts_when_context_refused:
  assumes "\<not> make_current_ok env" and "map_of (cg_outputs s) a = Some co"
  shows "\<exists>s'. handle_output_frame a env s = Some s'
     \<and> s' = s \<lparr> trace := trace s @ [Make_current (output_ptr (co_wlr_output co)),
                                     Log WLR_DEBUG ''Cannot make damage output current'' []] \<rparr>
     \<and> filter is_pass_event (trace s') = filter is_pass_event (trace s)
     \<and> handle_output_frame a env2 s' =
         Some (s' \<lparr> trace := trace s' @ frame_events (co_wlr_output co) env2 \<rparr>)"
  using assms by (simp add: handle_output_frame_def frame_events_def)

theorem frame_aborts_when_context_refused_witness:
  "handle_output_frame 1 ((demo_env [demo_view_A]) \<lparr> make_current_ok := False \<rparr>) demo_active =
     Some (demo_active \<lparr> trace := [Make_current 1,
                                   Log WLR_DEBUG ''Cannot make damage output current'' []] \<rparr>)"
  using frame_aborts_when_context_refused
    [where env = "(demo_env [demo_view_A]) \<lparr> make_current_ok := False \<rparr>" and s = demo_active
       and a = 1 and co = "\<lparr> co_wlr_output = demo_output \<rparr>" and ?env2.0 = "demo_env []"]
  by (simp add: demo_env_def demo_active_def demo_output_def)

section \<open>The lifecycle of the output\<close>

lemma in_phase_Active_iff: "in_phase Active s \<longleftrightarrow> (\<exists>a co. active_with a co s)"
  by (auto simp: active_with_def split: list.splits)

lemma lifecycle_inv_iff:
  "lifecycle_inv s \<longleftrightarrow>
     in_phase Unclaimed s \<or> (\<exists>a co. active_with a co s) \<or> in_phase Destroyed s"
  unfolding lifecycle_inv_def in_phase_Active_iff ..

lemma active_with_trace [simp]:
  "active_with a co (s \<lparr> trace := t \<rparr>) = active_with a co s"
  by (simp add: active_with_def)

lemma destroyed_after_teardown:
  "in_phase Destroyed
     (s \<lparr> listeners := [], cg_outputs := [], server_output := None, trace := t \<rparr>)"
  by simp

lemma emit_unclaimed_attach:
  "in_phase Unclaimed s \<Longrightarrow>
   wl_signal_emit (Device_attached wo rc) s = handle_new_output wo rc s"
  by (simp add: wl_signal_emit_def split: option.splits)

lemma handle_new_output_unclaimed:
  "in_phase Unclaimed s \<Longrightarrow>
   \<exists>s'. handle_new_output wo rc s = Some s' \<and> active_with 1 \<lparr> co_wlr_output = wo \<rparr> s'"
  by (simp add: handle_new_output_def wl_list_remove_def wl_signal_add_def calloc_addr_def
      Let_def active_with_def)

lemma emit_unclaimed_other:
  "in_phase Unclaimed s \<Longrightarrow> signal_of n \<noteq> Backend_new_output \<Longrightarrow>
   wl_signal_emit n s = Some s"
  by (simp add: wl_signal_emit_def)

lemma emit_destroyed: "in_phase Destroyed s \<Longrightarrow> wl_signal_emit n s = Some s"
  by (simp add: wl_signal_emit_def)

lemma emit_active_attach:
  "active_with a co s \<Longrightarrow> wl_signal_emit (Device_attached wo rc) s = Some s"
  by (simp add: wl_signal_emit_def active_with_def)

lemma emit_active_frame:
  "active_with a co s \<Longrightarrow>
   wl_signal_emit (Refresh_tick p env) s =
     (if p = output_ptr (co_wlr_output co)
      then Some (s \<lparr> trace := trace s @ frame_events (co_wlr_output co) env \<rparr>) else Some s)"
  by (simp add: wl_signal_emit_def handle_output_frame_def active_with_def)

lemma handle_output_destroy_active:
  "active_with a co s \<Longrightarrow>
   handle_output_destroy a s =
     Some (s \<lparr> listeners := [], cg_outputs := [], server_output := None,
              trace := trace s @ [Display_terminate] \<rparr>)"
  by (simp add: handle_output_destroy_def wl_list_remove_def free_def active_with_def)

lemma emit_active_destroy:
  "active_with a co s \<Longrightarrow>
   wl_signal_emit (Device_removed p) s =
     (if p = output_ptr (co_wlr_output co) then handle_output_destroy a s else Some s)"
  by (simp add: wl_signal_emit_def active_with_def split: option.splits)

text \<open>
  The handler of the removal has no check of its own: run on a record that has been
  freed, it reads through a dangling pointer.
\<close>
lemma handle_output_destroy_dangling:
  "map_of (cg_outputs s) a = None \<Longrightarrow> handle_output_destroy a s = None"
  by (simp add: handle_output_destroy_def)

text \<open>
  Every notification is handled without a fault in each of the three lifecycle states,
  and leads to one of them.
\<close>
lemma emit_preserves_inv:
  assumes "lifecycle_inv s"
  shows "\<exists>s'. wl_signal_emit n s = Some s' \<and> lifecycle_inv s'"
proof -
  consider (u) "in_phase Unclaimed s" | (a) a co where "active_with a co s"
    | (d) "in_phase Destroyed s"
    using assms unfolding lifecycle_inv_iff by blast
  then show ?thesis
  proof cases
    case u
    show ?thesis
    proof (cases n)
      case (Device_attached wo rc)
      from handle_new_output_unclaimed [OF u, of wo rc]
      obtain s' where "handle_new_output wo rc s = Some s'"
        and "active_with 1 \<lparr> co_wlr_output = wo \<rparr> s'" by blast
      then show ?thesis
        unfolding lifecycle_inv_iff Device_attached emit_unclaimed_attach [OF u] by blast
    next
      case (Refresh_tick p env)
      with u assms show ?thesis by (simp add: emit_unclaimed_other)
    next
      case (Device_removed p)
      with u assms show ?thesis by (simp add: emit_unclaimed_other)
    qed
  next
    case a
    show ?thesis
    proof (cases n)
      case (Device_attached wo rc)
      with a assms show ?thesis by (simp add: emit_active_attach)
    next
      case (Refresh_tick p env)
      have "lifecycle_inv (s \<lparr> trace := t \<rparr>)" for t
        unfolding lifecycle_inv_iff using a by auto
      with a assms Refresh_tick show ?thesis by (simp add: emit_active_frame)
    next
      case (Device_removed p)
      have "lifecycle_inv (s \<lparr> listeners := [], cg_outputs := [], server_output := None,
              trace := t \<rparr>)" for t
        unfolding lifecycle_inv_def using destroyed_after_teardown by blast
      with a assms Device_removed show ?thesis
        by (simp add: emit_active_destroy handle_output_destroy_active)
    qed
  next
    case d
    with assms show ?thesis by (simp add: emit_destroyed)
  qed
qed

lemma run_preserves_inv:
  "lifecycle_inv s \<Longrightarrow> \<exists>s'. run ns s = Some s' \<and> lifecycle_inv s'"
proof (induction ns arbitrary: s)
  case Nil
  then show ?case by simp
next
  case (Cons n ns)
  from emit_preserves_inv [OF Cons.prems, of n]
  obtain s1 where "wl_signal_emit n s = Some s1" "lifecycle_inv s1" by blast
  with Cons.IH [of s1] show ?case by simp
qed

lemma no_second_output:
  assumes "lifecycle_inv s"
  shows "length (cg_outputs s) \<le> 1
    \<and> (\<not> in_phase Unclaimed s \<longrightarrow> wl_signal_emit (Device_attached wo rc) s = Some s)"
proof -
  consider (u) "in_phase Unclaimed s" | (a) a co where "active_with a co s"
    | (d) "in_phase Destroyed s"
    using assms unfolding lifecycle_inv_iff by blast
  then show ?thesis
  proof cases
    case u then show ?thesis by simp
  next
    case a then show ?thesis by (simp add: emit_active_attach) (simp add: active_with_def)
  next
    case d then show ?thesis by (simp add: emit_destroyed)
  qed
qed

text \<open>
  C2. After any sequence of notifications delivered to a server that starts in
  \<open>Unclaimed\<close>, the event loop has not faulted, at most one Output record is live, and
  once the first device has been claimed a device-attach notification changes nothing.
  In particular the attach handler, run in \<open>Unclaimed\<close>, leaves exactly one live
  record and the attach listener unlinked, so that a second attach notification
  reaches no handler.
\<close>
theorem single_output:
  assumes "in_phase Unclaimed s0"
  shows "(\<exists>s. run ns s0 = Some s \<and> length (cg_outputs s) \<le> 1
        \<and> (\<not> in_phase Unclaimed s \<longrightarrow> wl_signal_emit (Device_attached wo rc) s = Some s))
   \<and> (\<exists>s1. handle_new_output wo rc s0 = Some s1 \<and> length (cg_outputs s1) = 1
        \<and> Server_new_output \<notin> snd ` set (listeners s1)
        \<and> wl_signal_emit (Device_attached wo2 rc2) s1 = Some s1)"
proof (intro conjI)
  from assms have "lifecycle_inv s0" by (simp add: lifecycle_inv_def)
  from run_preserves_inv [OF this, of ns]
  obtain s where "run ns s0 = Some s" "lifecycle_inv s" by blast
  with no_second_output [of s wo rc]
  show "\<exists>s. run ns s0 = Some s \<and> length (cg_outputs s) \<le> 1
        \<and> (\<not> in_phase Unclaimed s \<longrightarrow> wl_signal_emit (Device_attached wo rc) s = Some s)"
    by blast
next
  from handle_new_output_unclaimed [OF assms, of wo rc]
  obtain s1 where h: "handle_new_output wo rc s0 = Some s1"
    and a: "active_with 1 \<lparr> co_wlr_output = wo \<rparr> s1" by blast
  from a have "length (cg_outputs s1) = 1" "Server_new_output \<notin> snd ` set (listeners s1)"
    by (auto simp: active_with_def)
  with h emit_active_attach [OF a, of wo2 rc2]
  show "\<exists>s1. handle_new_output wo rc s0 = Some s1 \<and> length (cg_outputs s1) = 1
           \<and> Server_new_output \<notin> snd ` set (listeners s1)
           \<and> wl_signal_emit (Device_attached wo2 rc2) s1 = Some s1"
    by blast
qed

theorem single_output_witness:
  "map_option cg_outputs
     (run [Device_attached demo_output 0, Device_attached demo_output_hidpi 0] server_start) =
   Some [(1, \<lparr> co_wlr_output = demo_output \<rparr>)]"
proof -
  have u: "in_phase Unclaimed server_start"
    by (simp add: server_start_def)
  from single_output [OF u, of "[Device_attached demo_output 0, Device_attached demo_output_hidpi 0]"
      demo_output 0 demo_output_hidpi 0]
  show ?thesis
    by (simp add: server_start_def wl_signal_emit_def handle_new_output_def wl_signal_add_def
        wl_list_remove_def calloc_addr_def Let_def demo_output_def demo_output_hidpi_def)
qed

text \<open>
  C4. In \<open>Active\<close>, the notification that the device was removed runs
  \<open>handle_output_destroy\<close>, which returns normally: both listeners of the record are
  unlinked, the record is freed, \<open>server->output\<close> is \<open>NULL\<close>, and the one library call
  made is \<open>wl_display_terminate\<close>, which ends the main event loop.
\<close>
theorem teardown_on_device_removed:
  assumes "active_with a co s"
  shows "wl_signal_emit (Device_removed (output_ptr (co_wlr_output co))) s =
           handle_output_destroy a s
     \<and> handle_output_destroy a s =
           Some (s \<lparr> listeners := [], cg_outputs := [], server_output := None,
                    trace := trace s @ [Display_terminate] \<rparr>)"
  using assms by (simp add: emit_active_destroy handle_output_destroy_active)

theorem teardown_on_device_removed_witness:
  "wl_signal_emit (Device_removed 1) demo_active =
     Some \<lparr> server_output = None, cg_outputs = [], listeners = [],
            trace = [Display_terminate] \<rparr>"
proof -
  have a: "active_with 1 \<lparr> co_wlr_output = demo_output \<rparr> demo_active"
    by (simp add: active_with_def demo_active_def demo_output_def)
  show ?thesis using teardown_on_device_removed [OF a]
    by (simp add: demo_active_def demo_output_def)
qed

text \<open>
  C5. In \<open>Active\<close>, the removal of the device leads to \<open>Destroyed\<close>; a second removal
  notification then changes nothing, because the teardown has unlinked the listener
  that would receive it (the guard is the revoked subscription). Over the two
  notifications \<open>wl_display_terminate\<close> is called exactly once.
\<close>
theorem teardown_idempotent:
  assumes "active_with a co s" and "n = Device_removed (output_ptr (co_wlr_output co))"
  shows "\<exists>s'. wl_signal_emit n s = Some s' \<and> in_phase Destroyed s'
     \<and> wl_signal_emit n s' = Some s' \<and> run [n, n] s = Some s'
     \<and> count_list (trace s') Display_terminate = count_list (trace s) Display_terminate + 1"
  using assms
  by (simp add: emit_active_destroy handle_output_destroy_active emit_destroyed)

theorem teardown_idempotent_witness:
  "run [Device_removed 1, Device_removed 1] demo_active =
     Some \<lparr> server_output = None, cg_outputs = [], listeners = [],
            trace = [Display_terminate] \<rparr>"
proof -
  have a: "active_with 1 \<lparr> co_wlr_output = demo_output \<rparr> demo_active"
    by (simp add: active_with_def demo_active_def demo_output_def)
  have n: "Device_removed 1 =
      Device_removed (output_ptr (co_wlr_output \<lparr> co_wlr_output = demo_output \<rparr>))"
    by (simp add: demo_output_def)
  from teardown_idempotent [OF a n]
  obtain s' where "wl_signal_emit (Device_removed 1) demo_active = Some s'"
    and "run [Device_removed 1, Device_removed 1] demo_active = Some s'" by blast
  moreover have "wl_signal_emit (Device_removed 1) demo_active =
     Some \<lparr> server_output = None, cg_outputs = [], listeners = [],
            trace = [Display_terminate] \<rparr>"
    by (simp add: wl_signal_emit_def handle_output_destroy_def wl_list_remove_def free_def
        demo_active_def)
  ultimately show ?thesis by simp
qed

text \<open>
  C8. When a device that advertises at least one mode is attached in \<open>Unclaimed\<close>, the
  handler makes exactly one call of \<open>wlr_output_set_mode\<close>, with the last mode of the
  device's list. For the list 720p, 1080p it is 1080p.
\<close>
theorem attach_sets_last_mode:
  assumes "in_phase Unclaimed s" and "output_modes wo \<noteq> []"
  shows "\<exists>s'. wl_signal_emit (Device_attached wo rc) s = Some s'
     \<and> filter is_set_mode (trace s') =
         filter is_set_mode (trace s) @ [Set_mode (output_ptr wo) (last (output_modes wo))]"
  using assms
  by (simp add: emit_unclaimed_attach handle_new_output_def wl_list_remove_def
      wl_signal_add_def Let_def)

theorem attach_sets_last_mode_witness:
  "map_option (filter is_set_mode \<circ> trace)
     (wl_signal_emit (Device_attached demo_output 0) server_start) =
   Some [Set_mode 1 mode_1080p]"
proof -
  have u: "in_phase Unclaimed server_start"
    by (simp add: server_start_def)
  have m: "output_modes demo_output \<noteq> []"
    by (simp add: demo_output_def)
  from attach_sets_last_mode [OF u m, of 0]
  show ?thesis by (auto simp: server_start_def demo_output_def)
qed

end
